theory Spec2Isabelle
  imports Main "HOL-Library.Word"
begin

section \<open>The Atlas data model (package atlas, cluster.go)\<close>

text \<open>
  Go structs are records, a pointer that may be nil is an \<open>option\<close>, \<open>uint\<close> and
  \<open>int\<close> are 64-bit words. A \<open>float64\<close> is kept as its 64-bit pattern; no arithmetic is
  done on it by the broker. The broker code reads the fields \<open>StateName\<close>,
  \<open>ProviderName\<close> and \<open>InstanceSizeName\<close>; the records use the names the broker uses.
\<close>

definition ClusterStateIdle :: string where "ClusterStateIdle = ''IDLE''"
definition ClusterStateCreating :: string where "ClusterStateCreating = ''CREATING''"
definition ClusterStateUpdating :: string where "ClusterStateUpdating = ''UPDATING''"
definition ClusterStateDeleting :: string where "ClusterStateDeleting = ''DELETING''"
definition ClusterStateDeleted :: string where "ClusterStateDeleted = ''DELETED''"
definition ClusterStateRepairing :: string where "ClusterStateRepairing = ''REPAIRING''"

record AutoScalingConfig =
  DiskEnabled :: bool

record BIConnectorConfig =
  Enabled :: bool
  ReadPreference :: string

record ProviderSettings =
  ProviderName :: string
  InstanceSizeName :: string
  RegionName :: string
  DiskIOPS :: "64 word"
  DiskType :: string
  EncryptEBS :: bool
  VolumeType :: string

record RegionsConfig =
  ElectableNodes :: "64 word"
  ReadOnlyNodes :: "64 word"
  AnalyticsNodes :: "64 word"
  Priority :: "64 word"

record ReplicationSpec =
  ID :: string
  rs_NumShards :: "64 word"
  rs_RegionsConfig :: RegionsConfig
  ZoneName :: string

record Cluster =
  Name :: string
  AutoScaling :: AutoScalingConfig
  BackupEnabled :: bool
  BIConnector :: BIConnectorConfig
  ClusterType :: string
  DiskSize :: "64 word"
  EncryptionAtRestProvider :: string
  MongoDBVersion :: string
  NumShards :: "64 word"
  ProviderBackupEnabled :: bool
  ReplicationFactor :: "64 word"
  ReplicationSpecs :: "ReplicationSpec list"
  ProviderSettings :: "ProviderSettings option"
  Labels :: "(string \<times> string) list"
  StateName :: string
  URI :: string

text \<open>The zero values \<open>atlas.ProviderSettings{}\<close> and \<open>atlas.Cluster{}\<close>.\<close>

definition zeroProviderSettings :: ProviderSettings where
  "zeroProviderSettings =
     \<lparr>ProviderName = [], InstanceSizeName = [], RegionName = [], DiskIOPS = 0,
      DiskType = [], EncryptEBS = False, VolumeType = []\<rparr>"

definition zeroCluster :: Cluster where
  "zeroCluster =
     \<lparr>Name = [], AutoScaling = \<lparr>DiskEnabled = False\<rparr>, BackupEnabled = False,
      BIConnector = \<lparr>Enabled = False, ReadPreference = []\<rparr>, ClusterType = [],
      DiskSize = 0, EncryptionAtRestProvider = [], MongoDBVersion = [], NumShards = 0,
      ProviderBackupEnabled = False, ReplicationFactor = 0, ReplicationSpecs = [],
      ProviderSettings = None, Labels = [], StateName = [], URI = []\<rparr>"

text \<open>
  Modelled from the spec: the label accessors \<open>GetLabel\<close> and \<open>SetLabel\<close> of
  \<open>atlas.Cluster\<close> are called by the broker but their bodies are not among the sources.
  The spec describes the labels as a flat key-value side-map with a get and a set
  capability, compared as \<open>cluster.labels[instanceIDLabel] == instanceID\<close>; a key that is
  absent reads as the empty string, as a Go map lookup does.
\<close>

definition GetLabel :: "Cluster \<Rightarrow> string \<Rightarrow> string" where
  "GetLabel c key = (case map_of (Labels c) key of None \<Rightarrow> [] | Some v \<Rightarrow> v)"

fun setLabelList :: "(string \<times> string) list \<Rightarrow> string \<Rightarrow> string \<Rightarrow> (string \<times> string) list" where
  "setLabelList [] key v = [(key, v)]"
| "setLabelList ((k, w) # ls) key v =
     (if k = key then (k, v) # ls else (k, w) # setLabelList ls key v)"

definition SetLabel :: "Cluster \<Rightarrow> string \<Rightarrow> string \<Rightarrow> Cluster" where
  "SetLabel c key v = c\<lparr>Labels := setLabelList (Labels c) key v\<rparr>"

text \<open>
  The catalog's provider and instance size (package atlas); the broker reads only
  their names.
\<close>

record Provider =
  provider_Name :: string

record InstanceSize =
  instanceSize_Name :: string

section \<open>Errors, outcomes and the remote API\<close>

text \<open>
  \<open>ErrAsyncRequired\<close> and \<open>ErrInstanceDoesNotExist\<close> are the two sentinel errors of
  brokerapi that the broker names; every other error value (of the JSON decoder, the
  catalog, the Atlas client, the request context) is \<open>OtherError\<close> with its message.
\<close>

datatype error = ErrAsyncRequired | ErrInstanceDoesNotExist | OtherError string

text \<open>
  A Go call either returns a value with a nil error, returns an error, or panics
  (here: a nil pointer dereference).
\<close>

datatype 'a outcome = Ok 'a | Error error | Panic

text \<open>
  The requests to the remote cluster API. Every broker operation returns the list of
  requests it issued, in order, next to its outcome.
\<close>

datatype call =
    CallGetClusters
  | CallCreateCluster Cluster
  | CallUpdateCluster Cluster
  | CallDeleteCluster string

text \<open>
  \<open>atlas.Client\<close> is an interface; a client is given by what the remote side answers
  to each request.
\<close>

record client =
  GetClusters :: "error + Cluster list"
  CreateCluster :: "Cluster \<Rightarrow> error + Cluster"
  UpdateCluster :: "Cluster \<Rightarrow> error + Cluster"
  DeleteCluster :: "string \<Rightarrow> error option"
  GetDashboardURL :: "string \<Rightarrow> string"

text \<open>The struct \<open>clusterFromParams\<close> unmarshals into, and that of the request context.\<close>

record params =
  Cluster :: "Cluster option"

record instanceContext =
  InstanceName :: string

text \<open>
  What the broker calls but the sources do not hold: Go's \<open>json.Unmarshal\<close> at the two
  struct types it is used with (it takes the raw bytes and the struct to fill, and
  returns the filled struct or an error), and the package functions
  \<open>atlasClientFromContext\<close>, \<open>findProviderByServiceID\<close>, \<open>findInstanceSizeByPlanID\<close>
  and \<open>atlasToAPIError\<close>. They are parameters of the model: every theorem holds for
  whatever they compute.
\<close>

record 'ctx collaborators =
  atlasClientFromContext :: "'ctx \<Rightarrow> error + client"
  unmarshalParams :: "string \<Rightarrow> params \<Rightarrow> error + params"
  unmarshalContext :: "string \<Rightarrow> instanceContext \<Rightarrow> error + instanceContext"
  findProviderByServiceID :: "client \<Rightarrow> string \<Rightarrow> error + Provider"
  findInstanceSizeByPlanID :: "Provider \<Rightarrow> string \<Rightarrow> error + InstanceSize"
  atlasToAPIError :: "error \<Rightarrow> error"

section \<open>The broker (package broker)\<close>

definition OperationProvision :: string where "OperationProvision = ''provision''"
definition OperationDeprovision :: string where "OperationDeprovision = ''deprovision''"
definition OperationUpdate :: string where "OperationUpdate = ''update''"

definition InstanceIDLabel :: string where "InstanceIDLabel = ''aosb-instance-id''"

text \<open>The three values of \<open>brokerapi.LastOperationState\<close>, a string type.\<close>

definition InProgress :: string where "InProgress = ''in progress''"
definition Succeeded :: string where "Succeeded = ''succeeded''"
definition Failed :: string where "Failed = ''failed''"

record ProvisionDetails =
  ServiceID :: string
  PlanID :: string
  RawParameters :: string
  RawContext :: string

record UpdateDetails =
  upd_ServiceID :: string
  upd_PlanID :: string
  upd_RawParameters :: string

record PollDetails =
  OperationData :: string

record ProvisionedServiceSpec =
  IsAsync :: bool
  prov_OperationData :: string
  DashboardURL :: string

record UpdateServiceSpec =
  upd_IsAsync :: bool
  upd_OperationData :: string
  upd_DashboardURL :: string

record DeprovisionServiceSpec =
  dep_IsAsync :: bool
  dep_OperationData :: string

record LastOperation =
  State :: string

subsection \<open>NormalizeClusterName\<close>

definition maximumNameLength :: nat where "maximumNameLength = 23"

definition NormalizeClusterName :: "string \<Rightarrow> string" where
  "NormalizeClusterName name =
     (if length name > maximumNameLength then take maximumNameLength name else name)"

subsection \<open>clusterFromParams\<close>

text \<open>
  Lines 252 to 265: the params object starts with a pointer to an empty cluster, and
  is unmarshalled into only when params were passed.
\<close>

definition paramsFromRaw :: "'ctx collaborators \<Rightarrow> string \<Rightarrow> error + params" where
  "paramsFromRaw D rawParams =
     (if length rawParams > 0
      then unmarshalParams D rawParams \<lparr>Cluster = Some zeroCluster\<rparr>
      else Inr \<lparr>Cluster = Some zeroCluster\<rparr>)"

text \<open>
  The result is the pointer \<open>params.Cluster\<close>, which the decoder may have set to nil;
  with a plan ID the provider object is read through it, which panics on nil.
\<close>

definition clusterFromParams ::
  "'ctx collaborators \<Rightarrow> client \<Rightarrow> string \<Rightarrow> string \<Rightarrow> string \<Rightarrow> string \<Rightarrow> Cluster option outcome"
where
  "clusterFromParams D cl instanceID serviceID planID rawParams =
     (case paramsFromRaw D rawParams of
        Inl err \<Rightarrow> Error err
      | Inr ps \<Rightarrow>
          if planID \<noteq> [] then
            (case findProviderByServiceID D cl serviceID of
               Inl err \<Rightarrow> Error err
             | Inr provider \<Rightarrow>
                 (case findInstanceSizeByPlanID D provider planID of
                    Inl err \<Rightarrow> Error err
                  | Inr instanceSize \<Rightarrow>
                      (case Cluster ps of
                         None \<Rightarrow> Panic
                       | Some c \<Rightarrow>
                           let settings =
                                 (case ProviderSettings c of
                                    None \<Rightarrow> zeroProviderSettings
                                  | Some s \<Rightarrow> s)
                           in Ok (Some (c\<lparr>ProviderSettings :=
                                   Some (settings\<lparr>ProviderName := provider_Name provider,
                                                   InstanceSizeName := instanceSize_Name instanceSize\<rparr>)\<rparr>)))))
          else Ok (Cluster ps))"

subsection \<open>clusterNameFromIDAndContext\<close>

definition clusterNameFromIDAndContext ::
  "'ctx collaborators \<Rightarrow> string \<Rightarrow> string \<Rightarrow> error + string"
where
  "clusterNameFromIDAndContext D instanceID rawContext =
     (case (if length rawContext > 0
            then unmarshalContext D rawContext \<lparr>InstanceName = []\<rparr>
            else Inr \<lparr>InstanceName = []\<rparr>) of
        Inl err \<Rightarrow> Inl err
      | Inr context \<Rightarrow>
          if InstanceName context \<noteq> [] then Inr (InstanceName context)
          else Inr (NormalizeClusterName instanceID))"

subsection \<open>findClusterByInstanceID\<close>

text \<open>
  The \<open>for ... range clusters\<close> loop. Go returns the cluster and the error side by
  side, and \<open>LastOperation\<close> reads the cluster also when the error is set, so the model
  returns the pair.
\<close>

fun scanClusters :: "string \<Rightarrow> Cluster list \<Rightarrow> Cluster \<times> error option" where
  "scanClusters instanceID [] = (zeroCluster, Some ErrInstanceDoesNotExist)"
| "scanClusters instanceID (cluster # rest) =
     (let matchesName = (Name cluster = NormalizeClusterName instanceID);
          matchesLabel = (GetLabel cluster InstanceIDLabel = instanceID)
      in if matchesName \<or> matchesLabel then (cluster, None)
         else scanClusters instanceID rest)"

definition findClusterByInstanceID ::
  "client \<Rightarrow> string \<Rightarrow> call list \<times> Cluster \<times> error option"
where
  "findClusterByInstanceID cl instanceID =
     (case GetClusters cl of
        Inl err \<Rightarrow> ([CallGetClusters], zeroCluster, Some err)
      | Inr clusters \<Rightarrow> ([CallGetClusters], scanClusters instanceID clusters))"

subsection \<open>Provision\<close>

definition Provision ::
  "'ctx collaborators \<Rightarrow> 'ctx \<Rightarrow> string \<Rightarrow> ProvisionDetails \<Rightarrow> bool
     \<Rightarrow> call list \<times> ProvisionedServiceSpec outcome"
where
  "Provision D ctx instanceID details asyncAllowed =
     (case atlasClientFromContext D ctx of
        Inl err \<Rightarrow> ([], Error err)
      | Inr cl \<Rightarrow>
          if \<not> asyncAllowed then ([], Error ErrAsyncRequired)
          else
            (case clusterFromParams D cl instanceID (ServiceID details) (PlanID details)
                    (RawParameters details) of
               Error err \<Rightarrow> ([], Error err)
             | Panic \<Rightarrow> ([], Panic)
             | Ok cluster \<Rightarrow>
                 (case clusterNameFromIDAndContext D instanceID (RawContext details) of
                    Inl err \<Rightarrow> ([], Error err)
                  | Inr clusterName \<Rightarrow>
                      (case cluster of
                         None \<Rightarrow> ([], Panic)
                       | Some c \<Rightarrow>
                           let named = c\<lparr>Name := clusterName\<rparr>;
                               labelled = SetLabel named InstanceIDLabel instanceID
                           in (case CreateCluster cl labelled of
                                 Inl err \<Rightarrow>
                                   ([CallCreateCluster labelled], Error (atlasToAPIError D err))
                               | Inr resultingCluster \<Rightarrow>
                                   ([CallCreateCluster labelled],
                                    Ok \<lparr>IsAsync = True,
                                        prov_OperationData = OperationProvision,
                                        DashboardURL =
                                          GetDashboardURL cl (Name resultingCluster)\<rparr>))))))"

subsection \<open>Update\<close>

text \<open>
  Lines 111 to 119 of \<open>Update\<close>: the two assignments that complete the provider object
  from the existing cluster. Each reads \<open>existingCluster.ProviderSettings\<close> through the
  pointer, which panics when the pointer is nil; \<open>None\<close> is that panic.
\<close>

definition backfillProviderName :: "Cluster \<Rightarrow> ProviderSettings \<Rightarrow> ProviderSettings option" where
  "backfillProviderName existingCluster settings =
     (if ProviderName settings = [] then
        (case ProviderSettings existingCluster of
           None \<Rightarrow> None
         | Some existing \<Rightarrow> Some (settings\<lparr>ProviderName := ProviderName existing\<rparr>))
      else Some settings)"

definition backfillInstanceSizeName :: "Cluster \<Rightarrow> ProviderSettings \<Rightarrow> ProviderSettings option" where
  "backfillInstanceSizeName existingCluster settings =
     (if InstanceSizeName settings = [] then
        (case ProviderSettings existingCluster of
           None \<Rightarrow> None
         | Some existing \<Rightarrow> Some (settings\<lparr>InstanceSizeName := InstanceSizeName existing\<rparr>))
      else Some settings)"

definition backfillProvider :: "Cluster \<Rightarrow> Cluster \<Rightarrow> Cluster option" where
  "backfillProvider existingCluster cluster =
     (case ProviderSettings cluster of
        None \<Rightarrow> Some cluster
      | Some settings \<Rightarrow>
          (case backfillProviderName existingCluster settings of
             None \<Rightarrow> None
           | Some settings1 \<Rightarrow>
               (case backfillInstanceSizeName existingCluster settings1 of
                  None \<Rightarrow> None
                | Some settings2 \<Rightarrow> Some (cluster\<lparr>ProviderSettings := Some settings2\<rparr>))))"

definition Update ::
  "'ctx collaborators \<Rightarrow> 'ctx \<Rightarrow> string \<Rightarrow> UpdateDetails \<Rightarrow> bool
     \<Rightarrow> call list \<times> UpdateServiceSpec outcome"
where
  "Update D ctx instanceID details asyncAllowed =
     (case atlasClientFromContext D ctx of
        Inl err \<Rightarrow> ([], Error err)
      | Inr cl \<Rightarrow>
          if \<not> asyncAllowed then ([], Error ErrAsyncRequired)
          else
            (case findClusterByInstanceID cl instanceID of
               (calls, existingCluster, Some err) \<Rightarrow> (calls, Error err)
             | (calls, existingCluster, None) \<Rightarrow>
                 (case clusterFromParams D cl instanceID (upd_ServiceID details)
                         (upd_PlanID details) (upd_RawParameters details) of
                    Error err \<Rightarrow> (calls, Error err)
                  | Panic \<Rightarrow> (calls, Panic)
                  | Ok None \<Rightarrow> (calls, Panic)
                  | Ok (Some c) \<Rightarrow>
                      (case backfillProvider existingCluster
                              (c\<lparr>Name := Name existingCluster\<rparr>) of
                         None \<Rightarrow> (calls, Panic)
                       | Some cluster \<Rightarrow>
                           (case UpdateCluster cl cluster of
                              Inl err \<Rightarrow>
                                (calls @ [CallUpdateCluster cluster],
                                 Error (atlasToAPIError D err))
                            | Inr resultingCluster \<Rightarrow>
                                (calls @ [CallUpdateCluster cluster],
                                 Ok \<lparr>upd_IsAsync = True,
                                     upd_OperationData = OperationUpdate,
                                     upd_DashboardURL =
                                       GetDashboardURL cl (Name resultingCluster)\<rparr>))))))"

subsection \<open>Deprovision\<close>

definition Deprovision ::
  "'ctx collaborators \<Rightarrow> 'ctx \<Rightarrow> string \<Rightarrow> bool
     \<Rightarrow> call list \<times> DeprovisionServiceSpec outcome"
where
  "Deprovision D ctx instanceID asyncAllowed =
     (case atlasClientFromContext D ctx of
        Inl err \<Rightarrow> ([], Error err)
      | Inr cl \<Rightarrow>
          if \<not> asyncAllowed then ([], Error ErrAsyncRequired)
          else
            (case findClusterByInstanceID cl instanceID of
               (calls, cluster, Some err) \<Rightarrow> (calls, Error err)
             | (calls, cluster, None) \<Rightarrow>
                 (case DeleteCluster cl (Name cluster) of
                    Some err \<Rightarrow>
                      (calls @ [CallDeleteCluster (Name cluster)],
                       Error (atlasToAPIError D err))
                  | None \<Rightarrow>
                      (calls @ [CallDeleteCluster (Name cluster)],
                       Ok \<lparr>dep_IsAsync = True,
                           dep_OperationData = OperationDeprovision\<rparr>))))"

subsection \<open>LastOperation\<close>

text \<open>
  The \<open>switch\<close> on the operation kind with its inner switches on the cluster state;
  \<open>state\<close> starts as \<open>Failed\<close> and a branch that matches nothing leaves it so.
\<close>

definition LastOperation ::
  "'ctx collaborators \<Rightarrow> 'ctx \<Rightarrow> string \<Rightarrow> PollDetails \<Rightarrow> call list \<times> LastOperation outcome"
where
  "LastOperation D ctx instanceID details =
     (case atlasClientFromContext D ctx of
        Inl err \<Rightarrow> ([], Error err)
      | Inr cl \<Rightarrow>
          (case findClusterByInstanceID cl instanceID of
             (calls, cluster, err) \<Rightarrow>
               if err \<noteq> None \<and> err \<noteq> Some ErrInstanceDoesNotExist
               then (calls, Error (the err))
               else
                 let state = Failed;
                     state =
                       (if OperationData details = OperationProvision then
                          (if StateName cluster = ClusterStateIdle then Succeeded
                           else if StateName cluster = ClusterStateCreating then InProgress
                           else state)
                        else if OperationData details = OperationDeprovision then
                          (if err = Some ErrInstanceDoesNotExist
                              \<or> StateName cluster = ClusterStateDeleted then Succeeded
                           else if StateName cluster = ClusterStateDeleting then InProgress
                           else state)
                        else if OperationData details = OperationUpdate then
                          (if StateName cluster = ClusterStateIdle then Succeeded
                           else if StateName cluster = ClusterStateUpdating then InProgress
                           else state)
                        else state)
                 in (calls, Ok \<lparr>State = state\<rparr>)))"

section \<open>The specification's table and matching rule\<close>

text \<open>
  The poll-state table as the specification words it, to be compared with
  \<open>LastOperation\<close>: a row per operation kind and observation, and \<open>failed\<close> for
  everything else. An observation is what the lookup reports: no cluster for the
  instance, a cluster and its state, or a failure other than not-found. The table's
  rows for such a failure say \<open>failed\<close> as well, which the fallback covers.
\<close>

datatype observation = NotFound | Found string | LookupFailed

definition pollStateTable :: "string \<Rightarrow> observation \<Rightarrow> string" where
  "pollStateTable kind obs =
     (if kind = ''provision'' \<and> obs = Found ''IDLE'' then ''succeeded''
      else if kind = ''provision'' \<and> obs = Found ''CREATING'' then ''in progress''
      else if kind = ''update'' \<and> obs = Found ''IDLE'' then ''succeeded''
      else if kind = ''update'' \<and> obs = Found ''UPDATING'' then ''in progress''
      else if kind = ''deprovision'' \<and> obs = NotFound then ''succeeded''
      else if kind = ''deprovision'' \<and> obs = Found ''DELETED'' then ''succeeded''
      else if kind = ''deprovision'' \<and> obs = Found ''DELETING'' then ''in progress''
      else ''failed'')"

text \<open>
  The locator's matching rule as the specification words it: the cluster's name is the
  instance ID cut to 23 characters, or its identity label is the instance ID.
\<close>

definition matchesInstanceID :: "string \<Rightarrow> Cluster \<Rightarrow> bool" where
  "matchesInstanceID instanceID c \<longleftrightarrow>
     Name c = take 23 instanceID \<or> GetLabel c ''aosb-instance-id'' = instanceID"

section \<open>Concrete scenarios\<close>

text \<open>
  A remote side and a set of collaborators to run the broker on concrete inputs. The
  decoder agrees with \<open>encoding/json\<close> on the payloads the scenarios use: an absent
  \<open>cluster\<close> key leaves the params object alone, \<open>null\<close> sets the pointer to nil, an
  object is unmarshalled into the cluster the pointer holds, and a truncated document
  is an error. The request context holds the client or nothing.
\<close>

definition scenarioCluster :: "string \<Rightarrow> string \<Rightarrow> string \<Rightarrow> Cluster" where
  "scenarioCluster name instanceID state =
     zeroCluster\<lparr>Name := name, Labels := [(InstanceIDLabel, instanceID)], StateName := state\<rparr>"

definition scenarioClient :: "error + Cluster list \<Rightarrow> client" where
  "scenarioClient listing =
     \<lparr>GetClusters = listing,
      CreateCluster = (\<lambda>c. Inr c),
      UpdateCluster = (\<lambda>c. Inr c),
      DeleteCluster = (\<lambda>n. None),
      GetDashboardURL = (\<lambda>n. ''https://cloud.mongodb.com/clusters/'' @ n)\<rparr>"

definition scenarioCollaborators :: "client option collaborators" where
  \<open>scenarioCollaborators =
     \<lparr>atlasClientFromContext =
        (\<lambda>ctx. case ctx of
                  None \<Rightarrow> Inl (OtherError ''no Atlas client in context'')
                | Some cl \<Rightarrow> Inr cl),
      unmarshalParams =
        (\<lambda>raw p.
           if raw = ''{}'' then Inr p
           else if raw = ''{"cluster": null}'' then Inr (p\<lparr>Cluster := None\<rparr>)
           else if raw = ''{"cluster": {"providerSettings": {"regionName": "US_EAST_1"}}}''
           then Inr (p\<lparr>Cluster :=
                        map_option
                          (\<lambda>c. c\<lparr>ProviderSettings :=
                                   Some (zeroProviderSettings\<lparr>RegionName := ''US_EAST_1''\<rparr>)\<rparr>)
                          (Cluster p)\<rparr>)
           else if raw = ''{"cluster": {"providerSettings": {"providerName": "GCP", "instanceSizeName": "M30"}}}''
           then Inr (p\<lparr>Cluster :=
                        map_option
                          (\<lambda>c. c\<lparr>ProviderSettings :=
                                   Some (zeroProviderSettings\<lparr>ProviderName := ''GCP'',
                                           InstanceSizeName := ''M30''\<rparr>)\<rparr>)
                          (Cluster p)\<rparr>)
           else Inl (OtherError ''unexpected end of JSON input'')),
      unmarshalContext =
        (\<lambda>raw c. if raw = ''{}'' then Inr c else Inl (OtherError ''unexpected end of JSON input'')),
      findProviderByServiceID =
        (\<lambda>cl serviceID.
           if serviceID = ''aosb-cluster-service-aws'' then Inr \<lparr>provider_Name = ''AWS''\<rparr>
           else Inl (OtherError ''invalid service ID'')),
      findInstanceSizeByPlanID =
        (\<lambda>provider planID.
           if planID = ''aosb-cluster-plan-aws-m10'' then Inr \<lparr>instanceSize_Name = ''M10''\<rparr>
           else Inl (OtherError ''invalid plan ID'')),
      atlasToAPIError = (\<lambda>err. err)\<rparr>\<close>

section \<open>Name normalization\<close>

text \<open>
  C5: \<open>NormalizeClusterName\<close> is idempotent; a name of at most 23 characters is
  returned unchanged and a longer one is cut to its first 23 characters, so the result
  never has more than 23 characters. Nothing is rejected, hashed or padded.
\<close>

theorem NormalizeClusterName_truncates:
  "NormalizeClusterName (NormalizeClusterName s) = NormalizeClusterName s
   \<and> (length s \<le> 23 \<longrightarrow> NormalizeClusterName s = s)
   \<and> (length s > 23 \<longrightarrow> NormalizeClusterName s = take 23 s)
   \<and> length (NormalizeClusterName s) \<le> 23"
  by (simp add: NormalizeClusterName_def maximumNameLength_def)

text \<open>An instance ID of 36 characters is cut to 23; a short name is kept.\<close>

theorem NormalizeClusterName_truncates_witness:
  "NormalizeClusterName ''0f3c9a52-7d1e-4b88-a6c4-2e9d5b7f1a30'' = ''0f3c9a52-7d1e-4b88-a6c4''
   \<and> NormalizeClusterName ''my-cluster'' = ''my-cluster''"
proof -
  have long: "length ''0f3c9a52-7d1e-4b88-a6c4-2e9d5b7f1a30'' > 23" by simp
  have short: "length ''my-cluster'' \<le> 23" by simp
  from NormalizeClusterName_truncates [of "''0f3c9a52-7d1e-4b88-a6c4-2e9d5b7f1a30''"] long
  have "NormalizeClusterName ''0f3c9a52-7d1e-4b88-a6c4-2e9d5b7f1a30''
          = take 23 ''0f3c9a52-7d1e-4b88-a6c4-2e9d5b7f1a30''" by blast
  moreover from NormalizeClusterName_truncates [of "''my-cluster''"] short
  have "NormalizeClusterName ''my-cluster'' = ''my-cluster''" by blast
  ultimately show ?thesis by simp
qed

section \<open>The instance locator\<close>

lemma normalize_take: "NormalizeClusterName s = take 23 s"
  by (simp add: NormalizeClusterName_def maximumNameLength_def)

text \<open>The loop returns the first cluster of the list that matches, if any.\<close>

lemma scanClusters_matches:
  "scanClusters instanceID clusters =
     (case List.find (matchesInstanceID instanceID) clusters of
        None \<Rightarrow> (zeroCluster, Some ErrInstanceDoesNotExist)
      | Some c \<Rightarrow> (c, None))"
  by (induction clusters) (simp_all add: matchesInstanceID_def normalize_take InstanceIDLabel_def)

lemma find_lookup_cases:
  "findClusterByInstanceID cl instanceID = (calls, cluster, err) \<Longrightarrow>
     calls = [CallGetClusters] \<and> (err \<noteq> None \<longrightarrow> cluster = zeroCluster)"
  by (auto simp: findClusterByInstanceID_def scanClusters_matches split: sum.splits option.splits)

lemma find_first_index:
  "(\<exists>i < length xs. P (xs ! i) \<and> (\<forall>j < i. \<not> P (xs ! j)) \<and> List.find P xs = Some (xs ! i))
   \<or> ((\<forall>x \<in> set xs. \<not> P x) \<and> List.find P xs = None)"
proof (cases "List.find P xs")
  case None
  then show ?thesis by (simp add: find_None_iff)
next
  case (Some c)
  then obtain i where "i < length xs" "P (xs ! i)" "c = xs ! i" "\<forall>j < i. \<not> P (xs ! j)"
    by (auto simp: find_Some_iff)
  with Some show ?thesis by blast
qed

text \<open>
  C2: for every instance ID and every list of clusters the remote API returns,
  \<open>findClusterByInstanceID\<close> issues the one list request and returns the first cluster
  in list order whose name is the normalized instance ID or whose label
  \<open>aosb-instance-id\<close> is the instance ID; when no cluster satisfies either condition it
  fails with \<open>ErrInstanceDoesNotExist\<close>. A cluster matched by its label alone is
  returned although its name differs from the normalized ID.
\<close>

theorem findClusterByInstanceID_first_match:
  assumes "GetClusters cl = Inr clusters"
  shows "((\<exists>i < length clusters.
            matchesInstanceID instanceID (clusters ! i)
            \<and> (\<forall>j < i. \<not> matchesInstanceID instanceID (clusters ! j))
            \<and> findClusterByInstanceID cl instanceID = ([CallGetClusters], clusters ! i, None))
          \<or> ((\<forall>c \<in> set clusters. \<not> matchesInstanceID instanceID c)
             \<and> findClusterByInstanceID cl instanceID
                 = ([CallGetClusters], zeroCluster, Some ErrInstanceDoesNotExist)))
         \<and> (\<forall>i < length clusters.
               GetLabel (clusters ! i) ''aosb-instance-id'' = instanceID
               \<and> Name (clusters ! i) \<noteq> take 23 instanceID
               \<and> (\<forall>j < i. \<not> matchesInstanceID instanceID (clusters ! j))
               \<longrightarrow> findClusterByInstanceID cl instanceID
                     = ([CallGetClusters], clusters ! i, None))"
proof -
  have eq: "findClusterByInstanceID cl instanceID =
              ([CallGetClusters],
               case List.find (matchesInstanceID instanceID) clusters of
                 None \<Rightarrow> (zeroCluster, Some ErrInstanceDoesNotExist)
               | Some c \<Rightarrow> (c, None))"
    using assms by (simp add: findClusterByInstanceID_def scanClusters_matches)
  have first: "(\<exists>i < length clusters.
            matchesInstanceID instanceID (clusters ! i)
            \<and> (\<forall>j < i. \<not> matchesInstanceID instanceID (clusters ! j))
            \<and> findClusterByInstanceID cl instanceID = ([CallGetClusters], clusters ! i, None))
          \<or> ((\<forall>c \<in> set clusters. \<not> matchesInstanceID instanceID c)
             \<and> findClusterByInstanceID cl instanceID
                 = ([CallGetClusters], zeroCluster, Some ErrInstanceDoesNotExist))"
    using find_first_index [of clusters "matchesInstanceID instanceID"]
    by (auto simp: eq)
  have label: "findClusterByInstanceID cl instanceID = ([CallGetClusters], clusters ! i, None)"
    if "i < length clusters" "GetLabel (clusters ! i) ''aosb-instance-id'' = instanceID"
       "\<forall>j < i. \<not> matchesInstanceID instanceID (clusters ! j)" for i
  proof -
    have "matchesInstanceID instanceID (clusters ! i)"
      using that(2) by (simp add: matchesInstanceID_def)
    with that(1,3) have "List.find (matchesInstanceID instanceID) clusters = Some (clusters ! i)"
      by (auto simp: find_Some_iff)
    then show ?thesis by (simp add: eq)
  qed
  from first label show ?thesis by blast
qed

text \<open>
  The second of three clusters carries a display name and the instance ID as label; the
  third has the normalized ID as name. The second is returned.
\<close>

theorem findClusterByInstanceID_first_match_witness:
  "findClusterByInstanceID
      (scenarioClient (Inr [scenarioCluster ''unrelated'' ''i-0'' ''IDLE'',
                            scenarioCluster ''orders-db'' ''0f3c9a52-7d1e-4b88-a6c4-2e9d5b7f1a30'' ''IDLE'',
                            scenarioCluster ''0f3c9a52-7d1e-4b88-a6c4'' ''old'' ''DELETING'']))
      ''0f3c9a52-7d1e-4b88-a6c4-2e9d5b7f1a30''
     = ([CallGetClusters],
        scenarioCluster ''orders-db'' ''0f3c9a52-7d1e-4b88-a6c4-2e9d5b7f1a30'' ''IDLE'', None)"
proof -
  let ?cs = "[scenarioCluster ''unrelated'' ''i-0'' ''IDLE'',
              scenarioCluster ''orders-db'' ''0f3c9a52-7d1e-4b88-a6c4-2e9d5b7f1a30'' ''IDLE'',
              scenarioCluster ''0f3c9a52-7d1e-4b88-a6c4'' ''old'' ''DELETING'']"
  let ?id = "''0f3c9a52-7d1e-4b88-a6c4-2e9d5b7f1a30''"
  have g: "GetClusters (scenarioClient (Inr ?cs)) = Inr ?cs"
    by (simp add: scenarioClient_def)
  have l: "GetLabel (?cs ! 1) ''aosb-instance-id'' = ?id"
    by (simp add: scenarioCluster_def GetLabel_def InstanceIDLabel_def)
  have n: "Name (?cs ! 1) \<noteq> take 23 ?id"
    by (simp add: scenarioCluster_def)
  have e: "\<forall>j < (1::nat). \<not> matchesInstanceID ?id (?cs ! j)"
    by (simp add: matchesInstanceID_def scenarioCluster_def GetLabel_def InstanceIDLabel_def)
  have "(1::nat) < length ?cs" by simp
  with findClusterByInstanceID_first_match [OF g, of ?id] l n e
  have "findClusterByInstanceID (scenarioClient (Inr ?cs)) ?id = ([CallGetClusters], ?cs ! 1, None)"
    by blast
  then show ?thesis by simp
qed

section \<open>The operation state machine\<close>

lemmas broker_consts =
  Failed_def Succeeded_def InProgress_def
  OperationProvision_def OperationDeprovision_def OperationUpdate_def
  ClusterStateIdle_def ClusterStateCreating_def ClusterStateUpdating_def
  ClusterStateDeleting_def ClusterStateDeleted_def

text \<open>
  C1, as the claim words it, fails: the table is not total over the lookup outcome.
  When the list request fails with an error other than not-found, the table says
  \<open>failed\<close>, but \<open>LastOperation\<close> returns at the guard before the state machine, with
  that error and no poll state.
\<close>

theorem LastOperation_lookup_error_counterexample:
  "findClusterByInstanceID (scenarioClient (Inl (OtherError ''503 Service Unavailable''))) ''i-1''
     = ([CallGetClusters], zeroCluster, Some (OtherError ''503 Service Unavailable''))
   \<and> pollStateTable ''provision'' LookupFailed = ''failed''
   \<and> LastOperation scenarioCollaborators
        (Some (scenarioClient (Inl (OtherError ''503 Service Unavailable''))))
        ''i-1'' \<lparr>OperationData = ''provision''\<rparr>
      = ([CallGetClusters], Error (OtherError ''503 Service Unavailable''))
   \<and> snd (LastOperation scenarioCollaborators
        (Some (scenarioClient (Inl (OtherError ''503 Service Unavailable''))))
        ''i-1'' \<lparr>OperationData = ''provision''\<rparr>)
      \<noteq> Ok \<lparr>State = ''failed''\<rparr>"
  by (simp add: LastOperation_def findClusterByInstanceID_def scenarioClient_def
      scenarioCollaborators_def pollStateTable_def)

text \<open>
  C1, amended: whenever the lookup of \<open>LastOperation\<close> found a cluster or reported that
  the instance does not exist, the result is the state the specification's table lists
  for the operation kind and the observation: provision with IDLE is succeeded and with
  CREATING in progress, update with IDLE is succeeded and with UPDATING in progress,
  deprovision with no cluster or DELETED is succeeded and with DELETING in progress, and
  every other combination of these, unknown kinds and unknown states included, is
  failed; the state is a function of these inputs alone and always one of the three
  poll states. When the lookup fails with any other error, or the request context
  yields no client, no poll state is returned: the result is that error.
\<close>

theorem LastOperation_state_machine:
  "(atlasClientFromContext D ctx = Inr cl
      \<and> findClusterByInstanceID cl instanceID = (calls, cluster, err)
      \<and> (err = None \<or> err = Some ErrInstanceDoesNotExist)
    \<longrightarrow> LastOperation D ctx instanceID details
          = (calls, Ok \<lparr>State = pollStateTable (OperationData details)
                                (if err = None then Found (StateName cluster) else NotFound)\<rparr>))
   \<and> (atlasClientFromContext D ctx = Inr cl
      \<and> findClusterByInstanceID cl instanceID = (calls, cluster, Some e)
      \<and> e \<noteq> ErrInstanceDoesNotExist
    \<longrightarrow> LastOperation D ctx instanceID details = (calls, Error e))
   \<and> (atlasClientFromContext D ctx = Inl e
    \<longrightarrow> LastOperation D ctx instanceID details = ([], Error e))
   \<and> pollStateTable kind obs \<in> {Failed, Succeeded, InProgress}"
proof (intro conjI impI)
  assume a: "atlasClientFromContext D ctx = Inr cl
      \<and> findClusterByInstanceID cl instanceID = (calls, cluster, err)
      \<and> (err = None \<or> err = Some ErrInstanceDoesNotExist)"
  then have z: "err \<noteq> None \<Longrightarrow> StateName cluster = []"
    using find_lookup_cases [of cl instanceID calls cluster err] by (simp add: zeroCluster_def)
  from a have "err = None \<or> err = Some ErrInstanceDoesNotExist" by simp
  then show "LastOperation D ctx instanceID details =
           (calls, Ok \<lparr>State = pollStateTable (OperationData details)
                                (if err = None then Found (StateName cluster) else NotFound)\<rparr>)"
  proof
    assume "err = None"
    then show ?thesis using a
      by (simp add: LastOperation_def pollStateTable_def broker_consts Let_def)
  next
    assume e: "err = Some ErrInstanceDoesNotExist"
    then have "StateName cluster = []" using z by simp
    then show ?thesis using a e
      by (simp add: LastOperation_def pollStateTable_def broker_consts Let_def)
  qed
next
  assume "atlasClientFromContext D ctx = Inr cl
      \<and> findClusterByInstanceID cl instanceID = (calls, cluster, Some e)
      \<and> e \<noteq> ErrInstanceDoesNotExist"
  then show "LastOperation D ctx instanceID details = (calls, Error e)"
    by (simp add: LastOperation_def)
next
  assume "atlasClientFromContext D ctx = Inl e"
  then show "LastOperation D ctx instanceID details = ([], Error e)"
    by (simp add: LastOperation_def)
next
  show "pollStateTable kind obs \<in> {Failed, Succeeded, InProgress}"
    by (simp add: pollStateTable_def Failed_def Succeeded_def InProgress_def)
qed

text \<open>
  Polling a provision while the cluster is CREATING is in progress; polling an unknown
  operation kind is failed; a failing list request and a context without a client are
  errors.
\<close>

theorem LastOperation_state_machine_witness:
  "LastOperation scenarioCollaborators
      (Some (scenarioClient (Inr [scenarioCluster ''other'' ''i-2'' ''IDLE'',
                                  scenarioCluster ''i-1'' ''i-1'' ''CREATING''])))
      ''i-1'' \<lparr>OperationData = ''provision''\<rparr>
     = ([CallGetClusters], Ok \<lparr>State = ''in progress''\<rparr>)
   \<and> LastOperation scenarioCollaborators (Some (scenarioClient (Inr [])))
      ''i-1'' \<lparr>OperationData = ''resize''\<rparr>
     = ([CallGetClusters], Ok \<lparr>State = ''failed''\<rparr>)
   \<and> LastOperation scenarioCollaborators
      (Some (scenarioClient (Inl (OtherError ''503 Service Unavailable''))))
      ''i-1'' \<lparr>OperationData = ''update''\<rparr>
     = ([CallGetClusters], Error (OtherError ''503 Service Unavailable''))
   \<and> LastOperation scenarioCollaborators None ''i-1'' \<lparr>OperationData = ''update''\<rparr>
     = ([], Error (OtherError ''no Atlas client in context''))"
proof -
  let ?D = scenarioCollaborators
  let ?cs = "[scenarioCluster ''other'' ''i-2'' ''IDLE'',
              scenarioCluster ''i-1'' ''i-1'' ''CREATING'']"
  let ?e = "OtherError ''503 Service Unavailable''"
  have c: "atlasClientFromContext ?D (Some (scenarioClient l)) = Inr (scenarioClient l)" for l
    by (simp add: scenarioCollaborators_def)
  have n: "atlasClientFromContext ?D None = Inl (OtherError ''no Atlas client in context'')"
    by (simp add: scenarioCollaborators_def)
  have f1: "findClusterByInstanceID (scenarioClient (Inr ?cs)) ''i-1''
              = ([CallGetClusters], scenarioCluster ''i-1'' ''i-1'' ''CREATING'', None)"
    by (simp add: findClusterByInstanceID_def scenarioClient_def scenarioCluster_def
        NormalizeClusterName_def maximumNameLength_def GetLabel_def InstanceIDLabel_def)
  have f2: "findClusterByInstanceID (scenarioClient (Inr [])) ''i-1''
              = ([CallGetClusters], zeroCluster, Some ErrInstanceDoesNotExist)"
    by (simp add: findClusterByInstanceID_def scenarioClient_def)
  have f3: "findClusterByInstanceID (scenarioClient (Inl ?e)) ''i-1''
              = ([CallGetClusters], zeroCluster, Some ?e)"
    by (simp add: findClusterByInstanceID_def scenarioClient_def)
  have d: "?e \<noteq> ErrInstanceDoesNotExist" by simp
  from LastOperation_state_machine
         [of ?D "Some (scenarioClient (Inr ?cs))" "scenarioClient (Inr ?cs)" "''i-1''"
             "[CallGetClusters]" "scenarioCluster ''i-1'' ''i-1'' ''CREATING''" None
             "\<lparr>OperationData = ''provision''\<rparr>"] c f1
  have 1: "LastOperation ?D (Some (scenarioClient (Inr ?cs))) ''i-1''
          \<lparr>OperationData = ''provision''\<rparr>
        = ([CallGetClusters], Ok \<lparr>State = pollStateTable ''provision'' (Found ''CREATING'')\<rparr>)"
    by (simp add: scenarioCluster_def)
  from LastOperation_state_machine
         [of ?D "Some (scenarioClient (Inr []))" "scenarioClient (Inr [])" "''i-1''"
             "[CallGetClusters]" zeroCluster "Some ErrInstanceDoesNotExist"
             "\<lparr>OperationData = ''resize''\<rparr>"] c f2
  have 2: "LastOperation ?D (Some (scenarioClient (Inr []))) ''i-1''
          \<lparr>OperationData = ''resize''\<rparr>
        = ([CallGetClusters], Ok \<lparr>State = pollStateTable ''resize'' NotFound\<rparr>)"
    by simp
  from LastOperation_state_machine
         [of ?D "Some (scenarioClient (Inl ?e))" "scenarioClient (Inl ?e)" "''i-1''"
             "[CallGetClusters]" zeroCluster _ "\<lparr>OperationData = ''update''\<rparr>" ?e] c f3 d
  have 3: "LastOperation ?D (Some (scenarioClient (Inl ?e))) ''i-1''
          \<lparr>OperationData = ''update''\<rparr> = ([CallGetClusters], Error ?e)"
    by blast
  from LastOperation_state_machine
         [of ?D None _ "''i-1''" _ _ _ "\<lparr>OperationData = ''update''\<rparr>"
             "OtherError ''no Atlas client in context''"] n
  have 4: "LastOperation ?D None ''i-1'' \<lparr>OperationData = ''update''\<rparr>
             = ([], Error (OtherError ''no Atlas client in context''))"
    by blast
  from 1 2 3 4 show ?thesis by (simp add: pollStateTable_def)
qed

section \<open>Errors of the lookup while polling\<close>

text \<open>
  C6, as the claim words it, fails: a lookup that ends with \<open>ErrInstanceDoesNotExist\<close>
  is turned into a result with a nil error for the provision kind too, not only for
  deprovision.
\<close>

theorem LastOperation_not_found_counterexample:
  "findClusterByInstanceID (scenarioClient (Inr [])) ''i-1''
     = ([CallGetClusters], zeroCluster, Some ErrInstanceDoesNotExist)
   \<and> OperationProvision \<noteq> OperationDeprovision
   \<and> LastOperation scenarioCollaborators (Some (scenarioClient (Inr []))) ''i-1''
        \<lparr>OperationData = OperationProvision\<rparr>
      = ([CallGetClusters], Ok \<lparr>State = Failed\<rparr>)"
  by (simp add: LastOperation_def findClusterByInstanceID_def scenarioClient_def
      scenarioCollaborators_def broker_consts zeroCluster_def)

text \<open>
  C6, amended: \<open>LastOperation\<close> turns a lookup that fails with
  \<open>ErrInstanceDoesNotExist\<close> into a result with a nil error for every operation kind;
  the state of that result is succeeded for deprovision and failed for every other
  kind. Every other error, of the lookup or of fetching the client, is returned to the
  caller as it is. Polling a deprovision when the remote list holds no cluster of the
  instance returns succeeded.
\<close>

theorem LastOperation_error_policy:
  "(atlasClientFromContext D ctx = Inr cl
      \<and> findClusterByInstanceID cl instanceID = (calls, cluster, Some ErrInstanceDoesNotExist)
    \<longrightarrow> LastOperation D ctx instanceID details
          = (calls, Ok \<lparr>State = (if OperationData details = OperationDeprovision
                                  then Succeeded else Failed)\<rparr>))
   \<and> (atlasClientFromContext D ctx = Inr cl
      \<and> findClusterByInstanceID cl instanceID = (calls, cluster, Some e)
      \<and> e \<noteq> ErrInstanceDoesNotExist
    \<longrightarrow> LastOperation D ctx instanceID details = (calls, Error e))
   \<and> (atlasClientFromContext D ctx = Inl e
    \<longrightarrow> LastOperation D ctx instanceID details = ([], Error e))
   \<and> (atlasClientFromContext D ctx = Inr cl
      \<and> GetClusters cl = Inr clusters
      \<and> (\<forall>c \<in> set clusters. \<not> matchesInstanceID instanceID c)
      \<and> OperationData details = OperationDeprovision
    \<longrightarrow> LastOperation D ctx instanceID details = ([CallGetClusters], Ok \<lparr>State = Succeeded\<rparr>))"
proof (intro conjI impI)
  assume a: "atlasClientFromContext D ctx = Inr cl
      \<and> findClusterByInstanceID cl instanceID = (calls, cluster, Some ErrInstanceDoesNotExist)"
  then have "StateName cluster = []"
    using find_lookup_cases [of cl instanceID calls cluster "Some ErrInstanceDoesNotExist"]
    by (simp add: zeroCluster_def)
  with a show "LastOperation D ctx instanceID details
          = (calls, Ok \<lparr>State = (if OperationData details = OperationDeprovision
                                  then Succeeded else Failed)\<rparr>)"
    by (simp add: LastOperation_def broker_consts Let_def)
next
  assume "atlasClientFromContext D ctx = Inr cl
      \<and> findClusterByInstanceID cl instanceID = (calls, cluster, Some e)
      \<and> e \<noteq> ErrInstanceDoesNotExist"
  then show "LastOperation D ctx instanceID details = (calls, Error e)"
    by (simp add: LastOperation_def)
next
  assume "atlasClientFromContext D ctx = Inl e"
  then show "LastOperation D ctx instanceID details = ([], Error e)"
    by (simp add: LastOperation_def)
next
  assume a: "atlasClientFromContext D ctx = Inr cl
      \<and> GetClusters cl = Inr clusters
      \<and> (\<forall>c \<in> set clusters. \<not> matchesInstanceID instanceID c)
      \<and> OperationData details = OperationDeprovision"
  then have "List.find (matchesInstanceID instanceID) clusters = None"
    by (simp add: find_None_iff)
  with a have "findClusterByInstanceID cl instanceID
                 = ([CallGetClusters], zeroCluster, Some ErrInstanceDoesNotExist)"
    by (simp add: findClusterByInstanceID_def scanClusters_matches)
  with a show "LastOperation D ctx instanceID details = ([CallGetClusters], Ok \<lparr>State = Succeeded\<rparr>)"
    by (simp add: LastOperation_def broker_consts Let_def)
qed

text \<open>
  With the cluster gone from the list, a deprovision poll is succeeded and an update
  poll is failed, both without an error; a failing list request and a context without
  a client are errors.
\<close>

theorem LastOperation_error_policy_witness:
  "LastOperation scenarioCollaborators
      (Some (scenarioClient (Inr [scenarioCluster ''unrelated'' ''i-0'' ''IDLE''])))
      ''i-1'' \<lparr>OperationData = ''deprovision''\<rparr>
     = ([CallGetClusters], Ok \<lparr>State = ''succeeded''\<rparr>)
   \<and> LastOperation scenarioCollaborators
      (Some (scenarioClient (Inr [scenarioCluster ''unrelated'' ''i-0'' ''IDLE''])))
      ''i-1'' \<lparr>OperationData = ''update''\<rparr>
     = ([CallGetClusters], Ok \<lparr>State = ''failed''\<rparr>)
   \<and> LastOperation scenarioCollaborators
      (Some (scenarioClient (Inl (OtherError ''503 Service Unavailable''))))
      ''i-1'' \<lparr>OperationData = ''deprovision''\<rparr>
     = ([CallGetClusters], Error (OtherError ''503 Service Unavailable''))
   \<and> LastOperation scenarioCollaborators None ''i-1'' \<lparr>OperationData = ''deprovision''\<rparr>
     = ([], Error (OtherError ''no Atlas client in context''))"
proof -
  let ?cs = "[scenarioCluster ''unrelated'' ''i-0'' ''IDLE'']"
  let ?D = scenarioCollaborators
  have c: "atlasClientFromContext ?D (Some (scenarioClient l)) = Inr (scenarioClient l)" for l
    by (simp add: scenarioCollaborators_def)
  have n: "atlasClientFromContext ?D None = Inl (OtherError ''no Atlas client in context'')"
    by (simp add: scenarioCollaborators_def)
  have g: "GetClusters (scenarioClient (Inr ?cs)) = Inr ?cs"
    by (simp add: scenarioClient_def)
  have m: "\<forall>c \<in> set ?cs. \<not> matchesInstanceID ''i-1'' c"
    by (simp add: matchesInstanceID_def scenarioCluster_def GetLabel_def InstanceIDLabel_def)
  have f: "findClusterByInstanceID (scenarioClient (Inr ?cs)) ''i-1''
             = ([CallGetClusters], zeroCluster, Some ErrInstanceDoesNotExist)"
    by (simp add: findClusterByInstanceID_def scenarioClient_def scenarioCluster_def
        NormalizeClusterName_def maximumNameLength_def GetLabel_def InstanceIDLabel_def)
  have h: "findClusterByInstanceID (scenarioClient (Inl (OtherError ''503 Service Unavailable''))) ''i-1''
             = ([CallGetClusters], zeroCluster, Some (OtherError ''503 Service Unavailable''))"
    by (simp add: findClusterByInstanceID_def scenarioClient_def)
  have o: "OperationData \<lparr>OperationData = ''deprovision''\<rparr> = OperationDeprovision"
    by (simp add: OperationDeprovision_def)
  have 1: "LastOperation ?D (Some (scenarioClient (Inr ?cs))) ''i-1''
             \<lparr>OperationData = ''deprovision''\<rparr>
           = ([CallGetClusters], Ok \<lparr>State = Succeeded\<rparr>)"
    using LastOperation_error_policy
      [of ?D "Some (scenarioClient (Inr ?cs))" "scenarioClient (Inr ?cs)" "''i-1''"
          _ _ "\<lparr>OperationData = ''deprovision''\<rparr>" _ ?cs] c g m o
    by blast
  have 2: "LastOperation ?D (Some (scenarioClient (Inr ?cs))) ''i-1''
             \<lparr>OperationData = ''update''\<rparr>
           = ([CallGetClusters], Ok \<lparr>State = (if OperationData \<lparr>OperationData = ''update''\<rparr>
                 = OperationDeprovision then Succeeded else Failed)\<rparr>)"
    using LastOperation_error_policy
      [of ?D "Some (scenarioClient (Inr ?cs))" "scenarioClient (Inr ?cs)" "''i-1''"
          "[CallGetClusters]" zeroCluster "\<lparr>OperationData = ''update''\<rparr>"] c f
    by blast
  have 3: "LastOperation ?D (Some (scenarioClient (Inl (OtherError ''503 Service Unavailable''))))
             ''i-1'' \<lparr>OperationData = ''deprovision''\<rparr>
           = ([CallGetClusters], Error (OtherError ''503 Service Unavailable''))"
    using LastOperation_error_policy
      [of ?D "Some (scenarioClient (Inl (OtherError ''503 Service Unavailable'')))"
          "scenarioClient (Inl (OtherError ''503 Service Unavailable''))" "''i-1''"
          "[CallGetClusters]" zeroCluster "\<lparr>OperationData = ''deprovision''\<rparr>"
          "OtherError ''503 Service Unavailable''"] c h
    by blast
  have 4: "LastOperation ?D None ''i-1'' \<lparr>OperationData = ''deprovision''\<rparr>
           = ([], Error (OtherError ''no Atlas client in context''))"
    using LastOperation_error_policy
      [of ?D None _ "''i-1''" _ _ "\<lparr>OperationData = ''deprovision''\<rparr>"
          "OtherError ''no Atlas client in context''"] n
    by blast
  from 1 2 3 4 show ?thesis
    by (simp add: Succeeded_def Failed_def OperationDeprovision_def)
qed

section \<open>The async guard\<close>

text \<open>
  C7, as the claim words it, fails: the client is fetched from the request context
  before the async flag is looked at, so a request without a client fails with the
  context's error, not with \<open>ErrAsyncRequired\<close>.
\<close>

theorem async_required_counterexample:
  "Provision scenarioCollaborators None ''i-1''
      \<lparr>ServiceID = ''aosb-cluster-service-aws'', PlanID = ''aosb-cluster-plan-aws-m10'',
       RawParameters = [], RawContext = []\<rparr> False
     = ([], Error (OtherError ''no Atlas client in context''))
   \<and> OtherError ''no Atlas client in context'' \<noteq> ErrAsyncRequired"
  by (simp add: Provision_def scenarioCollaborators_def)

text \<open>
  C7, amended: with \<open>asyncAllowed\<close> false, each of \<open>Provision\<close>, \<open>Update\<close> and
  \<open>Deprovision\<close> fails without a single request to the remote cluster API; the error
  is \<open>ErrAsyncRequired\<close> when the request context yields a client, and the error of
  \<open>atlasClientFromContext\<close> when it does not.
\<close>

theorem async_required_before_remote_calls:
  "(atlasClientFromContext D ctx = Inr cl \<longrightarrow>
      Provision D ctx instanceID pdetails False = ([], Error ErrAsyncRequired)
      \<and> Update D ctx instanceID udetails False = ([], Error ErrAsyncRequired)
      \<and> Deprovision D ctx instanceID False = ([], Error ErrAsyncRequired))
   \<and> (atlasClientFromContext D ctx = Inl e \<longrightarrow>
      Provision D ctx instanceID pdetails False = ([], Error e)
      \<and> Update D ctx instanceID udetails False = ([], Error e)
      \<and> Deprovision D ctx instanceID False = ([], Error e))"
  by (simp add: Provision_def Update_def Deprovision_def)

text \<open>The three operations on a context with a client, and one without.\<close>

theorem async_required_before_remote_calls_witness:
  "Provision scenarioCollaborators (Some (scenarioClient (Inr []))) ''i-1''
      \<lparr>ServiceID = ''aosb-cluster-service-aws'', PlanID = ''aosb-cluster-plan-aws-m10'',
       RawParameters = [], RawContext = []\<rparr> False
     = ([], Error ErrAsyncRequired)
   \<and> Update scenarioCollaborators (Some (scenarioClient (Inr []))) ''i-1''
      \<lparr>upd_ServiceID = ''aosb-cluster-service-aws'', upd_PlanID = [],
       upd_RawParameters = []\<rparr> False
     = ([], Error ErrAsyncRequired)
   \<and> Deprovision scenarioCollaborators (Some (scenarioClient (Inr []))) ''i-1'' False
     = ([], Error ErrAsyncRequired)
   \<and> Deprovision scenarioCollaborators None ''i-1'' False
     = ([], Error (OtherError ''no Atlas client in context''))"
proof -
  have c: "atlasClientFromContext scenarioCollaborators (Some (scenarioClient (Inr [])))
             = Inr (scenarioClient (Inr []))"
    by (simp add: scenarioCollaborators_def)
  have n: "atlasClientFromContext scenarioCollaborators None
             = Inl (OtherError ''no Atlas client in context'')"
    by (simp add: scenarioCollaborators_def)
  from async_required_before_remote_calls
         [of scenarioCollaborators "Some (scenarioClient (Inr []))" "scenarioClient (Inr [])"
             "''i-1''"] c
       async_required_before_remote_calls
         [of scenarioCollaborators None _ _ _ _ "OtherError ''no Atlas client in context''"] n
  show ?thesis by blast
qed

section \<open>Parameter resolution\<close>




text \<open>
  C8: with an empty plan ID and a payload that decodes, \<open>clusterFromParams\<close> returns
  the cluster pointer exactly as the decoder left it, provider settings and every
  other field included; without a payload it is the empty cluster.
\<close>

theorem clusterFromParams_without_plan:
  assumes "paramsFromRaw D rawParams = Inr ps"
  shows "clusterFromParams D cl instanceID serviceID [] rawParams = Ok (Cluster ps)
         \<and> (rawParams \<noteq> [] \<longrightarrow>
              unmarshalParams D rawParams \<lparr>Cluster = Some zeroCluster\<rparr> = Inr ps)
         \<and> (rawParams = [] \<longrightarrow> Cluster ps = Some zeroCluster)"
  using assms by (auto simp: clusterFromParams_def paramsFromRaw_def)

text \<open>Without a plan the user's GCP and M30 are kept as decoded.\<close>

theorem clusterFromParams_without_plan_witness:
  \<open>clusterFromParams scenarioCollaborators (scenarioClient (Inr [])) ''i-1''
      ''aosb-cluster-service-aws'' []
      ''{"cluster": {"providerSettings": {"providerName": "GCP", "instanceSizeName": "M30"}}}''
     = Ok (Some (zeroCluster\<lparr>ProviderSettings :=
              Some (zeroProviderSettings\<lparr>ProviderName := ''GCP'', InstanceSizeName := ''M30''\<rparr>)\<rparr>))\<close>
proof -
  let ?raw = \<open>''{"cluster": {"providerSettings": {"providerName": "GCP", "instanceSizeName": "M30"}}}''\<close>
  let ?c = "zeroCluster\<lparr>ProviderSettings :=
              Some (zeroProviderSettings\<lparr>ProviderName := ''GCP'', InstanceSizeName := ''M30''\<rparr>)\<rparr>"
  have p: "paramsFromRaw scenarioCollaborators ?raw = Inr \<lparr>Cluster = Some ?c\<rparr>"
    by (simp add: paramsFromRaw_def scenarioCollaborators_def)
  from clusterFromParams_without_plan [OF p]
  show ?thesis by simp
qed

section \<open>Nil pointers\<close>

text \<open>
  C9: for a payload that the decoder turns into a nil cluster pointer, as
  \<open>encoding/json\<close> does for \<open>{"cluster": null}\<close>, \<open>clusterFromParams\<close> with an empty
  plan ID returns the nil pointer with a nil error, and \<open>Provision\<close> then panics at the
  assignment of the cluster name; with a plan ID that the catalog resolves,
  \<open>clusterFromParams\<close> itself panics, and \<open>Provision\<close> with it. No error value is
  returned in either case, and no request is issued.
\<close>

theorem null_cluster_params_panic:
  assumes "rawParams \<noteq> []"
    and "unmarshalParams D rawParams \<lparr>Cluster = Some zeroCluster\<rparr> = Inr \<lparr>Cluster = None\<rparr>"
    and "atlasClientFromContext D ctx = Inr cl"
    and "RawParameters details = rawParams"
  shows "clusterFromParams D cl instanceID serviceID [] rawParams = Ok None
         \<and> (PlanID details = []
              \<and> clusterNameFromIDAndContext D instanceID (RawContext details) = Inr clusterName
             \<longrightarrow> Provision D ctx instanceID details True = ([], Panic))
         \<and> (planID \<noteq> []
              \<and> findProviderByServiceID D cl serviceID = Inr provider
              \<and> findInstanceSizeByPlanID D provider planID = Inr instanceSize
             \<longrightarrow> clusterFromParams D cl instanceID serviceID planID rawParams = Panic)
         \<and> (PlanID details \<noteq> []
              \<and> findProviderByServiceID D cl (ServiceID details) = Inr provider
              \<and> findInstanceSizeByPlanID D provider (PlanID details) = Inr instanceSize
             \<longrightarrow> Provision D ctx instanceID details True = ([], Panic))"
  using assms
  by (simp add: Provision_def clusterFromParams_def paramsFromRaw_def)

text \<open>The payload \<open>{"cluster": null}\<close>, without and with a plan.\<close>

theorem null_cluster_params_panic_witness:
  \<open>clusterFromParams scenarioCollaborators (scenarioClient (Inr [])) ''i-1''
      ''aosb-cluster-service-aws'' [] ''{"cluster": null}'' = Ok None
   \<and> Provision scenarioCollaborators (Some (scenarioClient (Inr []))) ''i-1''
       \<lparr>ServiceID = ''aosb-cluster-service-aws'', PlanID = [],
        RawParameters = ''{"cluster": null}'', RawContext = ''{}''\<rparr> True
     = ([], Panic)
   \<and> Provision scenarioCollaborators (Some (scenarioClient (Inr []))) ''i-1''
       \<lparr>ServiceID = ''aosb-cluster-service-aws'', PlanID = ''aosb-cluster-plan-aws-m10'',
        RawParameters = ''{"cluster": null}'', RawContext = ''{}''\<rparr> True
     = ([], Panic)\<close>
proof -
  let ?D = scenarioCollaborators
  let ?cl = "scenarioClient (Inr [])"
  let ?raw = \<open>''{"cluster": null}''\<close>
  let ?d0 = "\<lparr>ServiceID = ''aosb-cluster-service-aws'', PlanID = [],
              RawParameters = ?raw, RawContext = ''{}''\<rparr>"
  let ?d1 = "\<lparr>ServiceID = ''aosb-cluster-service-aws'', PlanID = ''aosb-cluster-plan-aws-m10'',
              RawParameters = ?raw, RawContext = ''{}''\<rparr>"
  have n: "?raw \<noteq> []" by simp
  have u: "unmarshalParams ?D ?raw \<lparr>Cluster = Some zeroCluster\<rparr> = Inr \<lparr>Cluster = None\<rparr>"
    by (simp add: scenarioCollaborators_def)
  have c: "atlasClientFromContext ?D (Some ?cl) = Inr ?cl"
    by (simp add: scenarioCollaborators_def)
  have k: "clusterNameFromIDAndContext ?D ''i-1'' (RawContext ?d0) = Inr ''i-1''"
    by (simp add: clusterNameFromIDAndContext_def scenarioCollaborators_def
        NormalizeClusterName_def maximumNameLength_def)
  have f: "findProviderByServiceID ?D ?cl (ServiceID ?d1) = Inr \<lparr>provider_Name = ''AWS''\<rparr>"
    by (simp add: scenarioCollaborators_def)
  have g: "findInstanceSizeByPlanID ?D \<lparr>provider_Name = ''AWS''\<rparr> (PlanID ?d1)
             = Inr \<lparr>instanceSize_Name = ''M10''\<rparr>"
    by (simp add: scenarioCollaborators_def)
  have r0: "RawParameters ?d0 = ?raw" and r1: "RawParameters ?d1 = ?raw" by simp_all
  have p0: "PlanID ?d0 = []" and p1: "PlanID ?d1 \<noteq> []" by simp_all
  from null_cluster_params_panic [OF n u c r0, of "''i-1''" "''aosb-cluster-service-aws''" "''i-1''"] p0 k
  have a: "clusterFromParams ?D ?cl ''i-1'' ''aosb-cluster-service-aws'' [] ?raw = Ok None"
    and b: "Provision ?D (Some ?cl) ''i-1'' ?d0 True = ([], Panic)"
    by blast+
  from null_cluster_params_panic [OF n u c r1, of "''i-1''" _ _ _ "\<lparr>provider_Name = ''AWS''\<rparr>"
      "\<lparr>instanceSize_Name = ''M10''\<rparr>"] p1 f g
  have d: "Provision ?D (Some ?cl) ''i-1'' ?d1 True = ([], Panic)"
    by blast
  from a b d show ?thesis by simp
qed

text \<open>
  C10: when the located cluster has no provider settings object, and the resolved spec
  has one whose provider name or instance size name is empty, \<open>Update\<close> panics in the
  backfill instead of returning an error; only the list request has been issued.
\<close>

theorem Update_backfill_nil_panic:
  assumes "atlasClientFromContext D ctx = Inr cl"
    and "findClusterByInstanceID cl instanceID = (calls, existingCluster, None)"
    and "ProviderSettings existingCluster = None"
    and "clusterFromParams D cl instanceID (upd_ServiceID details) (upd_PlanID details)
           (upd_RawParameters details) = Ok (Some c)"
    and "ProviderSettings c = Some settings"
    and "ProviderName settings = [] \<or> InstanceSizeName settings = []"
  shows "Update D ctx instanceID details True = (calls, Panic)"
  using assms
  by (auto simp: Update_def backfillProvider_def backfillProviderName_def
      backfillInstanceSizeName_def)

text \<open>
  An existing cluster without provider settings and a payload that supplies only a
  region.
\<close>

theorem Update_backfill_nil_panic_witness:
  \<open>Update scenarioCollaborators
      (Some (scenarioClient (Inr [scenarioCluster ''i-1'' ''i-1'' ''IDLE''])))
      ''i-1''
      \<lparr>upd_ServiceID = ''aosb-cluster-service-aws'', upd_PlanID = [],
       upd_RawParameters = ''{"cluster": {"providerSettings": {"regionName": "US_EAST_1"}}}''\<rparr>
      True
     = ([CallGetClusters], Panic)\<close>
proof -
  let ?D = scenarioCollaborators
  let ?e = "scenarioCluster ''i-1'' ''i-1'' ''IDLE''"
  let ?cl = "scenarioClient (Inr [?e])"
  let ?raw = \<open>''{"cluster": {"providerSettings": {"regionName": "US_EAST_1"}}}''\<close>
  let ?d = "\<lparr>upd_ServiceID = ''aosb-cluster-service-aws'', upd_PlanID = [],
             upd_RawParameters = ?raw\<rparr>"
  let ?s = "zeroProviderSettings\<lparr>RegionName := ''US_EAST_1''\<rparr>"
  let ?c = "zeroCluster\<lparr>ProviderSettings := Some ?s\<rparr>"
  have c: "atlasClientFromContext ?D (Some ?cl) = Inr ?cl"
    by (simp add: scenarioCollaborators_def)
  have f: "findClusterByInstanceID ?cl ''i-1'' = ([CallGetClusters], ?e, None)"
    by (simp add: findClusterByInstanceID_def scenarioClient_def scenarioCluster_def
        NormalizeClusterName_def maximumNameLength_def)
  have e: "ProviderSettings ?e = None"
    by (simp add: scenarioCluster_def zeroCluster_def)
  have p: "clusterFromParams ?D ?cl ''i-1'' (upd_ServiceID ?d) (upd_PlanID ?d)
             (upd_RawParameters ?d) = Ok (Some ?c)"
    by (simp add: clusterFromParams_def paramsFromRaw_def scenarioCollaborators_def)
  have s: "ProviderSettings ?c = Some ?s" by simp
  have n: "ProviderName ?s = [] \<or> InstanceSizeName ?s = []"
    by (simp add: zeroProviderSettings_def)
  from Update_backfill_nil_panic [OF c f e p s n] show ?thesis .
qed

section \<open>Update\<close>






end
